theory Spec2Isabelle
  imports Main "HOL-Library.Word"
begin

unbundle bit_operations_syntax

section \<open>Data model of functions/jwt\_function/main.go\<close>

text \<open>
  The program is a Lambda authorizer validating Cognito bearer tokens. Everything below
  follows \<^verbatim>\<open>main.go\<close>. Go strings are byte strings (\<^typ>\<open>string\<close>), \<^verbatim>\<open>[]byte\<close> is a
  list of 8-bit words, \<^verbatim>\<open>interface{}\<close> values that come out of a JSON document are
  values of \<open>json\<close>, and a decoded JSON object (\<^verbatim>\<open>map[string]interface{}\<close>,
  \<^verbatim>\<open>jwt.MapClaims\<close>) is an association list read with \<^const>\<open>map_of\<close>.
  Numeric claims are restricted to whole seconds: \<open>JNum n\<close> is the \<^verbatim>\<open>float64\<close> of
  value \<open>n\<close>.
\<close>

type_synonym byte = "8 word"

datatype json =
    JNull
  | JBool bool
  | JNum int
  | JString string
  | JArray "json list"
  | JObject "(string \<times> json) list"

text \<open>\<^verbatim>\<open>type JWK struct\<close> (lines 35-42); a field missing from the document is the empty string.\<close>

record JWK =
  Kid :: string
  Alg :: string
  Kty :: string
  E :: string
  N :: string
  Use :: string

text \<open>\<^verbatim>\<open>rsa.PublicKey\<close>: the modulus is a \<^verbatim>\<open>*big.Int\<close>, the exponent a Go \<^verbatim>\<open>int\<close>.\<close>

record PublicKey =
  pk_N :: nat
  pk_E :: int

text \<open>
  \<^verbatim>\<open>type TokenValidator struct\<close> (lines 45-51). Times are nanoseconds since the Unix
  epoch; \<open>zero_Time\<close> is Go's zero \<^verbatim>\<open>time.Time\<close> (1 January of year 1), the value of
  \<^verbatim>\<open>lastUpdated\<close> that \<^verbatim>\<open>NewTokenValidator\<close> leaves behind.
\<close>

record TokenValidator =
  JwksURL :: string
  UserPoolID :: string
  ClientID :: string
  jwksCache :: "string \<rightharpoonup> PublicKey"
  lastUpdated :: int

definition zero_Time :: int where
  "zero_Time = - 62135596800 * 1000000000"

definition time_Hour :: int where
  "time_Hour = 3600 * 1000000000"

definition unix_seconds :: "int \<Rightarrow> int" where
  "unix_seconds now = now div 1000000000"

text \<open>
  Every way a call can fail. The Go code returns untyped \<^verbatim>\<open>error\<close> values; each
  constructor stands for the errors listed with it.
  \<^item> \<open>ConfigurationError\<close>: the three \<^verbatim>\<open>errors.New\<close> of \<^verbatim>\<open>NewTokenValidator\<close> (lines 56-64)
    and the one of line 202.
  \<^item> \<open>FetchError\<close>: the error of \<^verbatim>\<open>http.Get\<close> (line 90).
  \<^item> \<open>ParseError\<close>: the error of the JSON decoder (line 97).
  \<^item> \<open>KeyDecodeError\<close>: the error of \<^verbatim>\<open>base64URLDecode\<close> (lines 106, 111).
  \<^item> \<open>KeyNotFoundError\<close>: line 135.
  \<^item> \<open>MalformedTokenError\<close>: \<^verbatim>\<open>jwt.Parse\<close> could not split or decode the token.
  \<^item> \<open>UnsupportedAlgorithmError\<close>: line 153, and \<^verbatim>\<open>jwt.Parse\<close> finding no registered
    signing method for the header's \<^verbatim>\<open>alg\<close>.
  \<^item> \<open>MissingKeyIdError\<close>: line 159.
  \<^item> \<open>InvalidSignatureError\<close>: \<^verbatim>\<open>jwt.Parse\<close>, the signing method's \<^verbatim>\<open>Verify\<close> failed.
  \<^item> \<open>ClaimsValidationError expired issued_at not_valid_yet\<close>: the
    \<^verbatim>\<open>*jwt.ValidationError\<close> of \<^verbatim>\<open>MapClaims.Valid\<close> inside \<^verbatim>\<open>jwt.Parse\<close>, with its three flags
    \<^verbatim>\<open>ValidationErrorExpired\<close>, \<^verbatim>\<open>ValidationErrorIssuedAt\<close>, \<^verbatim>\<open>ValidationErrorNotValidYet\<close>.
  \<^item> \<open>TokenExpiredError\<close>: line 174.
  \<^item> \<open>IssuerMismatchError\<close>: line 180.
  \<^item> \<open>AudienceMismatchError\<close>: lines 185 and 190.
  \<^item> \<open>InvalidTokenError\<close>: line 196.
\<close>

datatype error =
    ConfigurationError
  | FetchError
  | ParseError
  | KeyDecodeError
  | KeyNotFoundError
  | MalformedTokenError
  | UnsupportedAlgorithmError
  | MissingKeyIdError
  | InvalidSignatureError
  | ClaimsValidationError bool bool bool
  | TokenExpiredError
  | IssuerMismatchError
  | AudienceMismatchError
  | InvalidTokenError


text \<open>The observable effects a claim speaks about, in the order they happen.\<close>

datatype event =
    HttpGet string
  | SignatureVerify

definition network_calls :: "event list \<Rightarrow> nat" where
  "network_calls evs = length (filter (\<lambda>e. case e of HttpGet _ \<Rightarrow> True | _ \<Rightarrow> False) evs)"

section \<open>Key decoder\<close>

subsection \<open>\<^verbatim>\<open>base64.URLEncoding.DecodeString\<close> (Go standard library)\<close>

text \<open>
  The URL-safe alphabet of RFC 4648, padding character \<^verbatim>\<open>=\<close> required, not strict
  (the unused low bits of a final partial group are ignored), carriage returns and line
  feeds skipped wherever they stand.
\<close>

definition b64_index :: "char \<Rightarrow> nat option" where
  "b64_index c =
     (let k = (of_char c :: nat) in
      if 65 \<le> k \<and> k \<le> 90 then Some (k - 65)
      else if 97 \<le> k \<and> k \<le> 122 then Some (k - 97 + 26)
      else if 48 \<le> k \<and> k \<le> 57 then Some (k - 48 + 52)
      else if c = CHR ''-'' then Some 62
      else if c = CHR ''_'' then Some 63
      else None)"

definition quantum_val :: "nat \<Rightarrow> nat \<Rightarrow> nat \<Rightarrow> nat \<Rightarrow> nat" where
  "quantum_val x y z w = x * 262144 + y * 4096 + z * 64 + w"

definition quantum_bytes :: "nat \<Rightarrow> byte list" where
  "quantum_bytes val = [of_nat (val div 65536), of_nat (val div 256), of_nat val]"

fun decode_quanta :: "string \<Rightarrow> byte list option" where
  "decode_quanta [] = Some []"
| "decode_quanta (a # b # c # d # rest) =
     (case (b64_index a, b64_index b) of
        (Some x, Some y) \<Rightarrow>
          (case (b64_index c, b64_index d) of
             (Some z, Some w) \<Rightarrow>
               (case decode_quanta rest of
                  None \<Rightarrow> None
                | Some bs \<Rightarrow> Some (quantum_bytes (quantum_val x y z w) @ bs))
           | (Some z, None) \<Rightarrow>
               if d = CHR ''='' \<and> rest = []
               then Some (take 2 (quantum_bytes (quantum_val x y z 0)))
               else None
           | (None, _) \<Rightarrow>
               if c = CHR ''='' \<and> d = CHR ''='' \<and> rest = []
               then Some (take 1 (quantum_bytes (quantum_val x y 0 0)))
               else None)
      | _ \<Rightarrow> None)"
| "decode_quanta _ = None"

definition URLEncoding_DecodeString :: "string \<Rightarrow> byte list option" where
  "URLEncoding_DecodeString s =
     decode_quanta (filter (\<lambda>c. c \<noteq> CHR 0x0A \<and> c \<noteq> CHR 0x0D) s)"

text \<open>
  A character that belongs neither to the alphabet nor to what the decoder skips or
  reads as padding.
\<close>

definition foreign_char :: "char \<Rightarrow> bool" where
  "foreign_char c =
     (b64_index c = None \<and> c \<noteq> CHR ''='' \<and> c \<noteq> CHR 0x0A \<and> c \<noteq> CHR 0x0D)"

subsection \<open>\<^verbatim>\<open>base64URLDecode\<close> (lines 139-145)\<close>

definition repad :: "string \<Rightarrow> string" where
  "repad str =
     (let l = length str mod 4 in
      if l > 0 then str @ replicate (4 - l) CHR ''='' else str)"

definition base64URLDecode :: "string \<Rightarrow> byte list option" where
  "base64URLDecode str = URLEncoding_DecodeString (repad str)"

subsection \<open>Exponent and modulus (lines 114-126)\<close>

text \<open>
  \<^verbatim>\<open>binary.BigEndian.Uint32(b)\<close> is
  \<^verbatim>\<open>uint32(b[3]) | uint32(b[2])<<8 | uint32(b[1])<<16 | uint32(b[0])<<24\<close>; both call
  sites pass at least four bytes, on fewer the function returns 0 here. The conversion
  \<^verbatim>\<open>int(...)\<close> of line 117 keeps the value, Go's \<^verbatim>\<open>int\<close> being 64 bits wide where the
  function is deployed.
\<close>

fun BigEndian_Uint32 :: "byte list \<Rightarrow> 32 word" where
  "BigEndian_Uint32 (b0 # b1 # b2 # b3 # _) =
     (ucast b3 OR push_bit 8 (ucast b2) OR push_bit 16 (ucast b1) OR push_bit 24 (ucast b0))"
| "BigEndian_Uint32 _ = 0"

definition exponent_of :: "byte list \<Rightarrow> int" where
  "exponent_of e =
     (if length e < 4
      then uint (BigEndian_Uint32 (replicate (4 - length e) 0 @ e))
      else uint (BigEndian_Uint32 e))"

text \<open>\<^verbatim>\<open>new(big.Int).SetBytes(n)\<close>: the bytes as a big-endian unsigned integer.\<close>

definition SetBytes :: "byte list \<Rightarrow> nat" where
  "SetBytes bs = foldl (\<lambda>acc b. acc * 256 + unat b) 0 bs"


text \<open>Lines 104-126: the body of the loop once a record with the wanted key id is found.\<close>

definition decode_key :: "JWK \<Rightarrow> error + PublicKey" where
  "decode_key jwk =
     (case base64URLDecode (N jwk) of
        None \<Rightarrow> Inl KeyDecodeError
      | Some n \<Rightarrow>
          (case base64URLDecode (E jwk) of
             None \<Rightarrow> Inl KeyDecodeError
           | Some e \<Rightarrow> Inr \<lparr>pk_N = SetBytes n, pk_E = exponent_of e\<rparr>))"

section \<open>The world outside the program\<close>

text \<open>
  What the program reads from outside, as parameters: the environment variables of
  lines 23-27, the answer of the JWKS endpoint (\<^verbatim>\<open>http.Get\<close> followed by the JSON
  decoder, lines 88-98), the splitting and decoding of a compact token into its header,
  its claims, its signing string (the first two segments) and its signature segment (done
  by \<^verbatim>\<open>jwt.Parse\<close>), and the RSA PKCS#1 v1.5 signature check of \<^verbatim>\<open>SigningMethodRSA.Verify\<close>.
  The clock is a parameter \<open>now\<close> of every call: all reads of the clock within one
  call (\<^verbatim>\<open>time.Since\<close>, \<^verbatim>\<open>time.Now\<close>, the library's \<^verbatim>\<open>TimeFunc\<close>) return that instant.
\<close>

datatype http_result =
    GetFailed
  | BodyMalformed
  | Body "JWK list"

record segments =
  seg_Header :: "(string \<times> json) list"
  seg_Claims :: "(string \<times> json) list"
  seg_SigningString :: string
  seg_Signature :: string

record world =
  cognitoRegion :: string
  cognitoUserPoolID :: string
  cognitoClientID :: string
  http_get :: "string \<Rightarrow> http_result"
  decode_segments :: "string \<Rightarrow> segments option"
  rsa_verify :: "string \<Rightarrow> string \<Rightarrow> string \<Rightarrow> PublicKey \<Rightarrow> bool"

section \<open>JWKS cache\<close>

text \<open>\<^verbatim>\<open>NewTokenValidator\<close> (lines 54-73).\<close>

definition NewTokenValidator :: "string \<Rightarrow> string \<Rightarrow> string \<Rightarrow> error + TokenValidator" where
  "NewTokenValidator region userPoolID clientID =
     (if region = [] then Inl ConfigurationError
      else if userPoolID = [] then Inl ConfigurationError
      else if clientID = [] then Inl ConfigurationError
      else Inr \<lparr>JwksURL = ''https://cognito-idp.'' @ region @ ''.amazonaws.com/'' @ userPoolID
                           @ ''/.well-known/jwks.json'',
                UserPoolID = userPoolID,
                ClientID = clientID,
                jwksCache = Map.empty,
                lastUpdated = zero_Time\<rparr>)"

text \<open>The loop of lines 101-133: the first record with the wanted key id decides.\<close>

fun scan_keys :: "string \<Rightarrow> JWK list \<Rightarrow> error + PublicKey" where
  "scan_keys kid [] = Inl KeyNotFoundError"
| "scan_keys kid (jwk # rest) =
     (if Kid jwk = kid then decode_key jwk else scan_keys kid rest)"

text \<open>
  \<^verbatim>\<open>getPublicKey\<close> (lines 76-136), called at time \<open>now\<close>. It returns its result, the
  validator as the call leaves it, and the events of the call. \<^verbatim>\<open>time.Since\<close> saturates
  at about 292 years, which does not change a comparison with one hour. The cache entry
  is written under \<^verbatim>\<open>jwk.Kid\<close>, which equals \<open>kid\<close> there.
\<close>

definition getPublicKey ::
  "world \<Rightarrow> int \<Rightarrow> TokenValidator \<Rightarrow> string \<Rightarrow> (error + PublicKey) \<times> TokenValidator \<times> event list" where
  "getPublicKey w now v kid =
     (let v1 = (if now - lastUpdated v > time_Hour then v\<lparr>jwksCache := Map.empty\<rparr> else v) in
      case jwksCache v1 kid of
        Some key \<Rightarrow> (Inr key, v1, [])
      | None \<Rightarrow>
          (case http_get w (JwksURL v1) of
             GetFailed \<Rightarrow> (Inl FetchError, v1, [HttpGet (JwksURL v1)])
           | BodyMalformed \<Rightarrow> (Inl ParseError, v1, [HttpGet (JwksURL v1)])
           | Body keys \<Rightarrow>
               (case scan_keys kid keys of
                  Inl e \<Rightarrow> (Inl e, v1, [HttpGet (JwksURL v1)])
                | Inr key \<Rightarrow>
                    (Inr key,
                     v1\<lparr>jwksCache := (jwksCache v1)(kid \<mapsto> key), lastUpdated := now\<rparr>,
                     [HttpGet (JwksURL v1)]))))"

section \<open>Token validator\<close>

subsection \<open>The library: github.com/golang-jwt/jwt/v4\<close>

text \<open>
  The Go types implementing \<^verbatim>\<open>jwt.SigningMethod\<close>, and the registry behind
  \<^verbatim>\<open>jwt.GetSigningMethod\<close>. \<^verbatim>\<open>*SigningMethodRSAPSS\<close> embeds \<^verbatim>\<open>*SigningMethodRSA\<close> but is
  a type of its own, so the type assertion of line 152 fails on it.
\<close>

datatype signing_method =
    SigningMethodRSA string
  | SigningMethodRSAPSS string
  | SigningMethodHMAC string
  | SigningMethodECDSA string
  | SigningMethodEd25519
  | SigningMethodNone

definition GetSigningMethod :: "string \<Rightarrow> signing_method option" where
  "GetSigningMethod alg =
     (if alg \<in> set [''RS256'', ''RS384'', ''RS512''] then Some (SigningMethodRSA alg)
      else if alg \<in> set [''PS256'', ''PS384'', ''PS512''] then Some (SigningMethodRSAPSS alg)
      else if alg \<in> set [''HS256'', ''HS384'', ''HS512''] then Some (SigningMethodHMAC alg)
      else if alg \<in> set [''ES256'', ''ES384'', ''ES512''] then Some (SigningMethodECDSA alg)
      else if alg = ''EdDSA'' then Some SigningMethodEd25519
      else if alg = ''none'' then Some SigningMethodNone
      else None)"

text \<open>The names under which the registry holds a \<^verbatim>\<open>*SigningMethodRSA\<close>.\<close>

definition rsa_algs :: "string set" where
  "rsa_algs = {''RS256'', ''RS384'', ''RS512''}"

text \<open>\<^verbatim>\<open>jwt.Token\<close>.\<close>

record Token =
  Raw :: string
  Method :: signing_method
  Header :: "(string \<times> json) list"
  Claims :: "(string \<times> json) list"
  Signature :: string
  Valid :: bool

text \<open>
  \<^verbatim>\<open>Parser.ParseUnverified\<close>: split and decode, then look the header's \<^verbatim>\<open>alg\<close> up
  among the registered signing methods.
\<close>

definition ParseUnverified :: "world \<Rightarrow> string \<Rightarrow> error + (Token \<times> segments)" where
  "ParseUnverified w tokenString =
     (case decode_segments w tokenString of
        None \<Rightarrow> Inl MalformedTokenError
      | Some seg \<Rightarrow>
          (case map_of (seg_Header seg) ''alg'' of
             Some (JString alg) \<Rightarrow>
               (case GetSigningMethod alg of
                  None \<Rightarrow> Inl UnsupportedAlgorithmError
                | Some m \<Rightarrow>
                    Inr (\<lparr>Raw = tokenString, Method = m, Header = seg_Header seg,
                          Claims = seg_Claims seg, Signature = [], Valid = False\<rparr>, seg))
           | _ \<Rightarrow> Inl UnsupportedAlgorithmError))"

text \<open>
  Numeric dates in the library (release 4.5). A numeric claim arrives as a \<^verbatim>\<open>float64\<close>;
  \<^verbatim>\<open>newNumericDateFromSeconds\<close> converts its integral part with \<^verbatim>\<open>int64(...)\<close> and hands
  it to \<^verbatim>\<open>time.Unix\<close>, which adds the seconds between year 1 and 1970 in \<^verbatim>\<open>int64\<close>
  arithmetic; \<^verbatim>\<open>Before\<close>, \<^verbatim>\<open>After\<close> and \<^verbatim>\<open>Equal\<close> then compare these seconds (all
  times here are whole seconds, so truncation to the second changes nothing). A value
  outside the \<^verbatim>\<open>int64\<close> range converts to the most negative \<^verbatim>\<open>int64\<close> (the result on
  amd64; arm64 saturates instead, which after the wrapping addition is a time just as far
  in the past).
\<close>

definition int64_of_float :: "int \<Rightarrow> int" where
  "int64_of_float f =
     (if - 9223372036854775808 \<le> f \<and> f < 9223372036854775808 then f
      else - 9223372036854775808)"

definition wrap_int64 :: "int \<Rightarrow> int" where
  "wrap_int64 x = (x + 9223372036854775808) mod 18446744073709551616 - 9223372036854775808"

definition unixToInternal :: int where
  "unixToInternal = 62135596800"

definition time_Unix :: "int \<Rightarrow> int" where
  "time_Unix sec = wrap_int64 (sec + unixToInternal)"

definition newNumericDateFromSeconds :: "int \<Rightarrow> int" where
  "newNumericDateFromSeconds f = time_Unix (int64_of_float f)"


text \<open>
  The claim checks of \<^verbatim>\<open>jwt.MapClaims\<close>. A claim that is present but not a number fails
  its check; the number 0 counts as unset; \<open>cmp\<close> is in Unix seconds and goes through
  \<^verbatim>\<open>time.Unix\<close> as well. \<^verbatim>\<open>verifyExp\<close> is \<^verbatim>\<open>now.Before(exp)\<close>; \<^verbatim>\<open>verifyIat\<close> and
  \<^verbatim>\<open>verifyNbf\<close> are \<^verbatim>\<open>now.After(t) || now.Equal(t)\<close>.
\<close>

definition VerifyExpiresAt :: "(string \<times> json) list \<Rightarrow> int \<Rightarrow> bool \<Rightarrow> bool" where
  "VerifyExpiresAt m cmp req =
     (case map_of m ''exp'' of
        None \<Rightarrow> \<not> req
      | Some (JNum exp) \<Rightarrow>
          (if exp = 0 then \<not> req else time_Unix cmp < newNumericDateFromSeconds exp)
      | Some _ \<Rightarrow> False)"

definition VerifyIssuedAt :: "(string \<times> json) list \<Rightarrow> int \<Rightarrow> bool \<Rightarrow> bool" where
  "VerifyIssuedAt m cmp req =
     (case map_of m ''iat'' of
        None \<Rightarrow> \<not> req
      | Some (JNum iat) \<Rightarrow>
          (if iat = 0 then \<not> req else newNumericDateFromSeconds iat \<le> time_Unix cmp)
      | Some _ \<Rightarrow> False)"

definition VerifyNotBefore :: "(string \<times> json) list \<Rightarrow> int \<Rightarrow> bool \<Rightarrow> bool" where
  "VerifyNotBefore m cmp req =
     (case map_of m ''nbf'' of
        None \<Rightarrow> \<not> req
      | Some (JNum nbf) \<Rightarrow>
          (if nbf = 0 then \<not> req else newNumericDateFromSeconds nbf \<le> time_Unix cmp)
      | Some _ \<Rightarrow> False)"

definition VerifyIssuer :: "(string \<times> json) list \<Rightarrow> string \<Rightarrow> bool \<Rightarrow> bool" where
  "VerifyIssuer m cmp req =
     (case map_of m ''iss'' of
        Some (JString iss) \<Rightarrow> (if iss = [] then \<not> req else iss = cmp)
      | _ \<Rightarrow> \<not> req)"

text \<open>\<^verbatim>\<open>MapClaims.Valid\<close>: \<^verbatim>\<open>exp\<close>, \<^verbatim>\<open>iat\<close> and \<^verbatim>\<open>nbf\<close>, none of them required.\<close>

definition MapClaims_Valid :: "(string \<times> json) list \<Rightarrow> int \<Rightarrow> error option" where
  "MapClaims_Valid m now_s =
     (let expired = \<not> VerifyExpiresAt m now_s False;
          issued_at = \<not> VerifyIssuedAt m now_s False;
          not_valid_yet = \<not> VerifyNotBefore m now_s False
      in if expired \<or> issued_at \<or> not_valid_yet
         then Some (ClaimsValidationError expired issued_at not_valid_yet)
         else None)"

subsection \<open>\<^verbatim>\<open>ValidateToken\<close> (lines 148-197)\<close>

text \<open>The key function handed to \<^verbatim>\<open>jwt.Parse\<close> (lines 150-164).\<close>

definition keyfunc ::
  "world \<Rightarrow> int \<Rightarrow> TokenValidator \<Rightarrow> Token \<Rightarrow> (error + PublicKey) \<times> TokenValidator \<times> event list" where
  "keyfunc w now v token =
     (case Method token of
        SigningMethodRSA alg \<Rightarrow>
          (case map_of (Header token) ''kid'' of
             Some (JString kid) \<Rightarrow> getPublicKey w now v kid
           | _ \<Rightarrow> (Inl MissingKeyIdError, v, []))
      | _ \<Rightarrow> (Inl UnsupportedAlgorithmError, v, []))"

text \<open>
  \<^verbatim>\<open>jwt.Parse\<close> with this key function (\<^verbatim>\<open>Parser.ParseWithClaims\<close>): parse, ask the key
  function for the key, verify the signature over the signing string with the token's
  method, validate the claims, and only then mark the token valid. An error of the key
  function comes back wrapped in a \<^verbatim>\<open>*jwt.ValidationError\<close>; it is kept as it is here.
  The key function lets only \<^verbatim>\<open>*SigningMethodRSA\<close> through, so the signature check is
  the RSA one. Releases of the library before 4.5 validate the claims before they check
  the signature and report both failures in one error; the two orders differ only in the
  error of a token that fails both.
\<close>

definition signature_ok :: "world \<Rightarrow> Token \<Rightarrow> segments \<Rightarrow> PublicKey \<Rightarrow> bool" where
  "signature_ok w token seg key =
     (case Method token of
        SigningMethodRSA alg \<Rightarrow> rsa_verify w alg (seg_SigningString seg) (seg_Signature seg) key
      | _ \<Rightarrow> False)"

definition jwt_Parse ::
  "world \<Rightarrow> int \<Rightarrow> TokenValidator \<Rightarrow> string \<Rightarrow> (error + Token) \<times> TokenValidator \<times> event list" where
  "jwt_Parse w now v tokenString =
     (case ParseUnverified w tokenString of
        Inl e \<Rightarrow> (Inl e, v, [])
      | Inr (token, seg) \<Rightarrow>
          (case keyfunc w now v token of
             (Inl e, v', evs) \<Rightarrow> (Inl e, v', evs)
           | (Inr key, v', evs) \<Rightarrow>
               (let token' = token\<lparr>Signature := seg_Signature seg\<rparr> in
                if \<not> signature_ok w token' seg key
                then (Inl InvalidSignatureError, v', evs @ [SignatureVerify])
                else
                  (case MapClaims_Valid (Claims token') (unix_seconds now) of
                     Some e \<Rightarrow> (Inl e, v', evs @ [SignatureVerify])
                   | None \<Rightarrow> (Inr (token'\<lparr>Valid := True\<rparr>), v', evs @ [SignatureVerify])))))"

text \<open>The expected issuer of line 178.\<close>

definition expected_issuer :: "world \<Rightarrow> TokenValidator \<Rightarrow> string" where
  "expected_issuer w v = ''https://cognito-idp.'' @ cognitoRegion w @ ''.amazonaws.com/'' @ UserPoolID v"

text \<open>
  Lines 184 and 189: a claim that is present and differs from the client id. The
  comparison is between an \<^verbatim>\<open>interface{}\<close> and a string: equal only for a JSON string
  with the same bytes.
\<close>

definition claim_mismatch :: "(string \<times> json) list \<Rightarrow> string \<Rightarrow> string \<Rightarrow> bool" where
  "claim_mismatch claims name expected =
     (case map_of claims name of
        Some c \<Rightarrow> c \<noteq> JString expected
      | None \<Rightarrow> False)"

definition ValidateToken ::
  "world \<Rightarrow> int \<Rightarrow> TokenValidator \<Rightarrow> string \<Rightarrow> (error + Token) \<times> TokenValidator \<times> event list" where
  "ValidateToken w now v tokenString =
     (case jwt_Parse w now v tokenString of
        (Inl e, v', evs) \<Rightarrow> (Inl e, v', evs)
      | (Inr token, v', evs) \<Rightarrow>
          if Valid token then
            if \<not> VerifyExpiresAt (Claims token) (unix_seconds now) True
            then (Inl TokenExpiredError, v', evs)
            else if \<not> VerifyIssuer (Claims token) (expected_issuer w v') True
            then (Inl IssuerMismatchError, v', evs)
            else if claim_mismatch (Claims token) ''client_id'' (ClientID v')
            then (Inl AudienceMismatchError, v', evs)
            else if claim_mismatch (Claims token) ''aud'' (ClientID v')
            then (Inl AudienceMismatchError, v', evs)
            else (Inr token, v', evs)
          else (Inl InvalidTokenError, v', evs))"

section \<open>Lambda handler\<close>

text \<open>\<^verbatim>\<open>ValidateTokenForAPIGateway\<close> (lines 200-218).\<close>

definition ValidateTokenForAPIGateway ::
  "world \<Rightarrow> int \<Rightarrow> string \<Rightarrow> string \<Rightarrow> string \<Rightarrow> (error + (string \<times> json) list) \<times> event list" where
  "ValidateTokenForAPIGateway w now token userPoolID clientID =
     (if cognitoRegion w = [] then (Inl ConfigurationError, [])
      else
        (case NewTokenValidator (cognitoRegion w) userPoolID clientID of
           Inl e \<Rightarrow> (Inl e, [])
         | Inr validator \<Rightarrow>
             (case ValidateToken w now validator token of
                (Inl e, _, evs) \<Rightarrow> (Inl e, evs)
              | (Inr jwtToken, _, evs) \<Rightarrow> (Inr (Claims jwtToken), evs))))"

text \<open>The event and response types of \<^verbatim>\<open>aws-lambda-go/events\<close>.\<close>

record APIGatewayCustomAuthorizerRequest =
  Type :: string
  AuthorizationToken :: string
  MethodArn :: string

record IAMPolicyStatement =
  Action :: "string list"
  Effect :: string
  Resource :: "string list"

record APIGatewayCustomAuthorizerPolicy =
  Version :: string
  Statement :: "IAMPolicyStatement list"

record APIGatewayCustomAuthorizerResponse =
  PrincipalID :: string
  PolicyDocument :: APIGatewayCustomAuthorizerPolicy
  Context :: "string \<rightharpoonup> json"
  UsageIdentifierKey :: string

text \<open>\<^verbatim>\<open>generatePolicy\<close> (lines 262-276); the principal is not used.\<close>

definition generatePolicy :: "string \<Rightarrow> string \<Rightarrow> string \<Rightarrow> APIGatewayCustomAuthorizerPolicy" where
  "generatePolicy principalID effect resource =
     \<lparr>Version = ''2012-10-17'',
      Statement = [\<lparr>Action = [''execute-api:Invoke''], Effect = effect, Resource = [resource]\<rparr>]\<rparr>"

text \<open>\<^verbatim>\<open>strings.TrimPrefix\<close>, and the type assertion \<^verbatim>\<open>claims[name].(string)\<close>.\<close>

definition TrimPrefix :: "string \<Rightarrow> string \<Rightarrow> string" where
  "TrimPrefix s p = (if take (length p) s = p then drop (length p) s else s)"

definition string_claim :: "(string \<times> json) list \<Rightarrow> string \<Rightarrow> string option" where
  "string_claim claims name =
     (case map_of claims name of
        Some (JString s) \<Rightarrow> Some s
      | _ \<Rightarrow> None)"

text \<open>\<^verbatim>\<open>handleRequest\<close> (lines 221-259).\<close>

definition handleRequest ::
  "world \<Rightarrow> int \<Rightarrow> APIGatewayCustomAuthorizerRequest
     \<Rightarrow> (error + APIGatewayCustomAuthorizerResponse) \<times> event list" where
  "handleRequest w now event =
     (let token = TrimPrefix (AuthorizationToken event) ''Bearer '' in
      case ValidateTokenForAPIGateway w now token (cognitoUserPoolID w) (cognitoClientID w) of
        (Inl e, evs) \<Rightarrow> (Inl e, evs)
      | (Inr claims, evs) \<Rightarrow>
          (let sub = (case string_claim claims ''sub'' of Some s \<Rightarrow> s | None \<Rightarrow> []);
               policyDocument = generatePolicy sub ''Allow'' (MethodArn event);
               context0 = [''sub'' \<mapsto> JString sub];
               context1 = (case string_claim claims ''cognito:username'' of
                             Some username \<Rightarrow> context0(''username'' \<mapsto> JString username)
                           | None \<Rightarrow> context0);
               context2 = (case string_claim claims ''email'' of
                             Some email \<Rightarrow> context1(''email'' \<mapsto> JString email)
                           | None \<Rightarrow> context1)
           in (Inr \<lparr>PrincipalID = sub, PolicyDocument = policyDocument,
                    Context = context2, UsageIdentifierKey = []\<rparr>, evs)))"

section \<open>The checks of the token validator, one by one\<close>


definition claims_of :: "world \<Rightarrow> string \<Rightarrow> (string \<times> json) list" where
  "claims_of w tokenString =
     (case decode_segments w tokenString of None \<Rightarrow> [] | Some seg \<Rightarrow> seg_Claims seg)"






section \<open>A concrete deployment\<close>

text \<open>
  One key \<^verbatim>\<open>k1\<close> with exponent \<^verbatim>\<open>AQAB\<close> (bytes 01 00 01) behind the endpoint, and a
  handful of tokens, told apart by their text, that differ from the good one in a single
  place each.
\<close>

definition demo_jwk :: JWK where
  "demo_jwk = \<lparr>Kid = ''k1'', Alg = ''RS256'', Kty = ''RSA'', E = ''AQAB'', N = ''AQAB'', Use = ''sig''\<rparr>"

definition demo_key :: PublicKey where
  "demo_key = \<lparr>pk_N = 65537, pk_E = 65537\<rparr>"

definition demo_now :: int where
  "demo_now = 1700000000 * 1000000000"

definition demo_issuer :: json where
  "demo_issuer = JString ''https://cognito-idp.eu-west-1.amazonaws.com/pool1''"

definition demo_header :: "(string \<times> json) list" where
  "demo_header = [(''alg'', JString ''RS256''), (''kid'', JString ''k1'')]"

definition demo_claims :: "(string \<times> json) list" where
  "demo_claims =
     [(''sub'', JString ''user-1''), (''iss'', demo_issuer),
      (''client_id'', JString ''client1''), (''exp'', JNum 1700003600)]"

definition demo_segments :: "(string \<times> json) list \<Rightarrow> (string \<times> json) list \<Rightarrow> segments" where
  "demo_segments header claims =
     \<lparr>seg_Header = header, seg_Claims = claims, seg_SigningString = ''h.p'', seg_Signature = ''sig''\<rparr>"

definition demo_decode :: "string \<Rightarrow> segments option" where
  "demo_decode s =
     (if s = ''good'' then Some (demo_segments demo_header demo_claims)
      else if s = ''nbf'' then
        Some (demo_segments demo_header (demo_claims @ [(''nbf'', JNum 1700000100)]))
      else if s = ''noexp'' then
        Some (demo_segments demo_header
                [(''sub'', JString ''user-1''), (''iss'', demo_issuer)])
      else if s = ''noexp-nbf'' then
        Some (demo_segments demo_header
                [(''sub'', JString ''user-1''), (''iss'', demo_issuer), (''nbf'', JNum 1700000100)])
      else if s = ''noaud'' then
        Some (demo_segments demo_header
                [(''sub'', JString ''user-1''), (''iss'', demo_issuer), (''exp'', JNum 1700003600)])
      else if s = ''otheraud'' then
        Some (demo_segments demo_header
                [(''iss'', demo_issuer), (''aud'', JString ''client2''), (''exp'', JNum 1700003600)])
      else if s = ''hs256'' then
        Some (demo_segments [(''alg'', JString ''HS256''), (''kid'', JString ''k1'')] demo_claims)
      else if s = ''nokid'' then
        Some (demo_segments [(''alg'', JString ''RS256'')] demo_claims)
      else if s = ''hs256-nokid'' then
        Some (demo_segments [(''alg'', JString ''HS256'')] demo_claims)
      else if s = ''noexp-iat'' then
        Some (demo_segments demo_header
                [(''sub'', JString ''user-1''), (''iss'', demo_issuer), (''iat'', JNum 1700000100)])
      else if s = ''noexp-hugenbf'' then
        Some (demo_segments demo_header
                [(''sub'', JString ''user-1''), (''iss'', demo_issuer),
                 (''nbf'', JNum 10000000000000000000)])
      else if s = ''hugenbf'' then
        Some (demo_segments demo_header (demo_claims @ [(''nbf'', JNum 10000000000000000000)]))
      else if s = ''expired'' then
        Some (demo_segments demo_header
                [(''sub'', JString ''user-1''), (''iss'', demo_issuer), (''exp'', JNum 1699999999)])
      else if s = ''nosub'' then
        Some (demo_segments demo_header
                [(''iss'', demo_issuer), (''client_id'', JString ''client1''),
                 (''exp'', JNum 1700003600)])
      else None)"

definition demo_verify :: "string \<Rightarrow> string \<Rightarrow> string \<Rightarrow> PublicKey \<Rightarrow> bool" where
  "demo_verify alg signingString signature key =
     (alg = ''RS256'' \<and> signingString = ''h.p'' \<and> signature = ''sig'' \<and> key = demo_key)"

definition demo_http_get :: "string \<Rightarrow> http_result" where
  "demo_http_get url = Body [demo_jwk]"

definition demo_world :: world where
  "demo_world =
     \<lparr>cognitoRegion = ''eu-west-1'', cognitoUserPoolID = ''pool1'', cognitoClientID = ''client1'',
      http_get = demo_http_get, decode_segments = demo_decode, rsa_verify = demo_verify\<rparr>"

definition demo_url :: string where
  "demo_url = ''https://cognito-idp.eu-west-1.amazonaws.com/pool1/.well-known/jwks.json''"

definition demo_validator :: TokenValidator where
  "demo_validator =
     \<lparr>JwksURL = demo_url, UserPoolID = ''pool1'', ClientID = ''client1'',
      jwksCache = Map.empty, lastUpdated = zero_Time\<rparr>"

text \<open>The same endpoint publishing the key with an empty exponent, or a broken modulus.\<close>

definition empty_e_http_get :: "string \<Rightarrow> http_result" where
  "empty_e_http_get url = Body [demo_jwk\<lparr>E := []\<rparr>]"

definition bad_n_http_get :: "string \<Rightarrow> http_result" where
  "bad_n_http_get url = Body [demo_jwk\<lparr>N := ''!!!!''\<rparr>]"

definition offline_http_get :: "string \<Rightarrow> http_result" where
  "offline_http_get url = GetFailed"

text \<open>
  The validator after it has resolved \<^verbatim>\<open>k1\<close> at \<open>demo_now\<close>, and one whose cache
  was filled two hours before \<open>demo_now\<close> with another key under the same key id.
\<close>

definition cached_validator :: TokenValidator where
  "cached_validator = demo_validator\<lparr>jwksCache := [''k1'' \<mapsto> demo_key], lastUpdated := demo_now\<rparr>"

definition old_key :: PublicKey where
  "old_key = \<lparr>pk_N = 3, pk_E = 3\<rparr>"

definition stale_validator :: TokenValidator where
  "stale_validator =
     demo_validator\<lparr>jwksCache := [''k1'' \<mapsto> old_key], lastUpdated := demo_now - 2 * time_Hour\<rparr>"

definition demo_event :: APIGatewayCustomAuthorizerRequest where
  "demo_event =
     \<lparr>Type = ''TOKEN'', AuthorizationToken = ''Bearer nosub'',
      MethodArn = ''arn:aws:execute-api:eu-west-1:123456789012:api/prod/GET/items''\<rparr>"

section \<open>Properties of the key decoder\<close>













lemma b64_AQAB:
  "b64_index CHR ''A'' = Some 0" "b64_index CHR ''Q'' = Some 16" "b64_index CHR ''B'' = Some 1"
  by (simp_all add: b64_index_def)

lemma decode_AQAB: "base64URLDecode ''AQAB'' = Some [1, 0, 1]"
  by (simp add: base64URLDecode_def repad_def URLEncoding_DecodeString_def b64_AQAB
      quantum_val_def quantum_bytes_def)

lemma decode_empty: "base64URLDecode [] = Some []"
  by (simp add: base64URLDecode_def repad_def URLEncoding_DecodeString_def)

lemma exponent_010001: "exponent_of [1, 0, 1] = 65537"
  by (simp add: exponent_of_def)

lemma exponent_empty: "exponent_of [] = 0"
  by (simp add: exponent_of_def eval_nat_numeral)

lemma demo_kid: "Kid demo_jwk = ''k1''"
  by (simp add: demo_jwk_def)

lemma demo_decode_key: "decode_key demo_jwk = Inr demo_key"
  by (simp add: decode_key_def demo_jwk_def demo_key_def decode_AQAB exponent_010001 SetBytes_def)



section \<open>Properties of the JWKS cache\<close>

lemma decode_quanta_foreign:
  "\<exists>c\<in>set s. b64_index c = None \<and> c \<noteq> CHR ''='' \<Longrightarrow> decode_quanta s = None"
proof (induction s rule: decode_quanta.induct)
  case 1
  then show ?case by simp
next
  case (2 a b c d rest)
  show ?case
  proof (cases "b64_index a = None \<or> b64_index b = None \<or> b64_index c = None \<or> b64_index d = None")
    case True
    with "2.prems" show ?thesis
      by (auto split: option.splits)
  next
    case False
    then obtain x y z u where idx: "b64_index a = Some x" "b64_index b = Some y"
        "b64_index c = Some z" "b64_index d = Some u"
      by auto
    with "2.prems" have "\<exists>c\<in>set rest. b64_index c = None \<and> c \<noteq> CHR ''=''"
      by auto
    then have "decode_quanta rest = None"
      using "2.IH" idx by simp
    with idx show ?thesis by simp
  qed
qed simp_all

lemma base64URLDecode_foreign:
  assumes "\<exists>c\<in>set s. foreign_char c"
  shows "base64URLDecode s = None"
proof -
  from assms obtain c where c: "c \<in> set s" "foreign_char c" by blast
  have "c \<in> set (filter (\<lambda>c. c \<noteq> CHR 0x0A \<and> c \<noteq> CHR 0x0D) (repad s))"
    using c by (auto simp: repad_def Let_def foreign_char_def)
  moreover have "b64_index c = None \<and> c \<noteq> CHR ''=''"
    using c by (simp add: foreign_char_def)
  ultimately show ?thesis
    unfolding base64URLDecode_def URLEncoding_DecodeString_def
    by (intro decode_quanta_foreign) blast
qed

lemma decode_key_error:
  "decode_key jwk = Inl KeyDecodeError \<longleftrightarrow>
     base64URLDecode (N jwk) = None \<or> base64URLDecode (E jwk) = None"
  by (auto simp: decode_key_def split: option.splits)

lemma scan_keys_first_match:
  assumes "\<forall>j\<in>set pre. Kid j \<noteq> kid" and "Kid jwk = kid"
  shows "scan_keys kid (pre @ jwk # post) = decode_key jwk"
  using assms by (induction pre) simp_all

lemma getPublicKey_miss:
  assumes "time_Hour < now - lastUpdated v \<or> jwksCache v kid = None"
      and "http_get w (JwksURL v) = Body keys"
  shows "getPublicKey w now v kid =
          (let v1 = (if now - lastUpdated v > time_Hour then v\<lparr>jwksCache := Map.empty\<rparr> else v) in
           case scan_keys kid keys of
             Inl e \<Rightarrow> (Inl e, v1, [HttpGet (JwksURL v)])
           | Inr key \<Rightarrow>
               (Inr key, v1\<lparr>jwksCache := (jwksCache v1)(kid \<mapsto> key), lastUpdated := now\<rparr>,
                [HttpGet (JwksURL v)]))"
  using assms by (auto simp: getPublicKey_def Let_def split: sum.splits)

lemma demo_time: "time_Hour < demo_now - zero_Time"
  by (simp add: time_Hour_def demo_now_def zero_Time_def)

lemma demo_getPublicKey:
  "getPublicKey demo_world demo_now demo_validator ''k1'' =
     (Inr demo_key, cached_validator, [HttpGet demo_url])"
proof -
  have "scan_keys ''k1'' [demo_jwk] = Inr demo_key"
    by (simp add: demo_kid demo_decode_key)
  then show ?thesis
    using demo_time
    by (simp add: getPublicKey_def demo_world_def demo_validator_def cached_validator_def
        demo_http_get_def)
qed

text \<open>
  C2, as amended. When the decoder rejects the re-padded modulus or exponent of the
  record that is found for the key id (in particular when either holds a character
  outside the URL-safe alphabet), key decoding fails with \<open>KeyDecodeError\<close>, nothing is
  cached and the timestamp stays. An empty field is not rejected: it decodes to the empty
  byte sequence, which is the integer 0 as a modulus and as an exponent.
\<close>

theorem getPublicKey_bad_base64_KeyDecodeError:
  assumes miss: "time_Hour < now - lastUpdated v \<or> jwksCache v kid = None"
      and body: "http_get w (JwksURL v) = Body (pre @ jwk # post)"
      and pre: "\<forall>j\<in>set pre. Kid j \<noteq> kid"
      and kid: "Kid jwk = kid"
      and bad: "base64URLDecode (N jwk) = None \<or> base64URLDecode (E jwk) = None \<or>
                (\<exists>c\<in>set (N jwk) \<union> set (E jwk). foreign_char c)"
  shows "decode_key jwk = Inl KeyDecodeError \<and>
         fst (getPublicKey w now v kid) = Inl KeyDecodeError \<and>
         jwksCache (fst (snd (getPublicKey w now v kid))) kid = None \<and>
         lastUpdated (fst (snd (getPublicKey w now v kid))) = lastUpdated v \<and>
         base64URLDecode [] = Some [] \<and> SetBytes [] = 0 \<and> exponent_of [] = 0"
proof -
  have "base64URLDecode (N jwk) = None \<or> base64URLDecode (E jwk) = None"
    using bad base64URLDecode_foreign [of "N jwk"] base64URLDecode_foreign [of "E jwk"]
    by (meson UnE)
  then have dk: "decode_key jwk = Inl KeyDecodeError" by (simp add: decode_key_error)
  have sk: "scan_keys kid (pre @ jwk # post) = Inl KeyDecodeError"
    using scan_keys_first_match [OF pre kid] dk by simp
  show ?thesis
    using miss dk decode_empty exponent_empty
    by (auto simp: getPublicKey_miss [OF miss body] sk Let_def SetBytes_def)
qed

theorem getPublicKey_bad_base64_KeyDecodeError_witness:
  "foreign_char CHR ''!'' \<and>
   fst (getPublicKey (demo_world\<lparr>http_get := bad_n_http_get\<rparr>) demo_now demo_validator ''k1'')
     = Inl KeyDecodeError \<and>
   jwksCache (fst (snd (getPublicKey (demo_world\<lparr>http_get := bad_n_http_get\<rparr>) demo_now
                          demo_validator ''k1''))) ''k1'' = None"
proof -
  have f: "foreign_char CHR ''!''"
    by (simp add: foreign_char_def b64_index_def)
  have miss: "time_Hour < demo_now - lastUpdated demo_validator \<or> jwksCache demo_validator ''k1'' = None"
    by (simp add: demo_validator_def)
  have body: "http_get (demo_world\<lparr>http_get := bad_n_http_get\<rparr>) (JwksURL demo_validator) =
      Body ([] @ demo_jwk\<lparr>N := ''!!!!''\<rparr> # [])"
    by (simp add: bad_n_http_get_def)
  have pre: "\<forall>j\<in>set []. Kid j \<noteq> ''k1''" by simp
  have kid: "Kid (demo_jwk\<lparr>N := ''!!!!''\<rparr>) = ''k1''" by (simp add: demo_jwk_def)
  have bad: "base64URLDecode (N (demo_jwk\<lparr>N := ''!!!!''\<rparr>)) = None \<or>
      base64URLDecode (E (demo_jwk\<lparr>N := ''!!!!''\<rparr>)) = None \<or>
      (\<exists>c\<in>set (N (demo_jwk\<lparr>N := ''!!!!''\<rparr>)) \<union> set (E (demo_jwk\<lparr>N := ''!!!!''\<rparr>)). foreign_char c)"
    using f by simp
  from getPublicKey_bad_base64_KeyDecodeError [OF miss body pre kid bad] f
  show ?thesis by simp
qed

text \<open>
  The claim as stated fails: the record with an empty exponent decodes to a key with
  exponent 0, which is returned and cached.
\<close>

theorem getPublicKey_empty_exponent_is_zero:
  "E (demo_jwk\<lparr>E := []\<rparr>) = [] \<and>
   decode_key (demo_jwk\<lparr>E := []\<rparr>) = Inr \<lparr>pk_N = 65537, pk_E = 0\<rparr> \<and>
   fst (getPublicKey (demo_world\<lparr>http_get := empty_e_http_get\<rparr>) demo_now demo_validator ''k1'')
     = Inr \<lparr>pk_N = 65537, pk_E = 0\<rparr> \<and>
   jwksCache (fst (snd (getPublicKey (demo_world\<lparr>http_get := empty_e_http_get\<rparr>) demo_now
                          demo_validator ''k1''))) ''k1'' = Some \<lparr>pk_N = 65537, pk_E = 0\<rparr>"
proof -
  have dk: "decode_key (demo_jwk\<lparr>E := []\<rparr>) = Inr \<lparr>pk_N = 65537, pk_E = 0\<rparr>"
    by (simp add: decode_key_def demo_jwk_def decode_AQAB decode_empty exponent_empty SetBytes_def)
  have miss: "time_Hour < demo_now - lastUpdated demo_validator \<or> jwksCache demo_validator ''k1'' = None"
    by (simp add: demo_validator_def)
  have body: "http_get (demo_world\<lparr>http_get := empty_e_http_get\<rparr>) (JwksURL demo_validator) =
      Body [demo_jwk\<lparr>E := []\<rparr>]"
    by (simp add: empty_e_http_get_def)
  show ?thesis
    by (simp add: getPublicKey_miss [OF miss body] demo_kid dk Let_def)
qed

text \<open>
  C3. A resolve call made more than one hour after \<open>lastUpdated\<close> behaves as the
  same call on an empty cache: it goes to the network, whatever it returns comes from the
  fetched key set and not from the old cache, and no other entry of the old cache
  survives the call.
\<close>

theorem getPublicKey_stale_cache_discarded:
  assumes stale: "time_Hour < now - lastUpdated v"
  shows "getPublicKey w now v kid = getPublicKey w now (v\<lparr>jwksCache := Map.empty\<rparr>) kid \<and>
         snd (snd (getPublicKey w now v kid)) = [HttpGet (JwksURL v)] \<and>
         (\<forall>k. k \<noteq> kid \<longrightarrow> jwksCache (fst (snd (getPublicKey w now v kid))) k = None) \<and>
         (\<forall>key. fst (getPublicKey w now v kid) = Inr key \<longrightarrow>
            (\<exists>keys. http_get w (JwksURL v) = Body keys \<and> scan_keys kid keys = Inr key))"
  using stale
  by (auto simp: getPublicKey_def Let_def split: http_result.splits sum.splits)

theorem getPublicKey_stale_cache_discarded_witness:
  "time_Hour < demo_now - lastUpdated stale_validator \<and>
   jwksCache stale_validator ''k1'' = Some old_key \<and>
   fst (getPublicKey demo_world demo_now stale_validator ''k1'') = Inr demo_key \<and>
   old_key \<noteq> demo_key \<and>
   snd (snd (getPublicKey demo_world demo_now stale_validator ''k1'')) = [HttpGet demo_url]"
proof -
  have stale: "time_Hour < demo_now - lastUpdated stale_validator"
    by (simp add: stale_validator_def time_Hour_def)
  have old: "jwksCache stale_validator ''k1'' = Some old_key"
    by (simp add: stale_validator_def)
  have url: "JwksURL stale_validator = demo_url"
    by (simp add: stale_validator_def demo_validator_def)
  have differ: "old_key \<noteq> demo_key"
    by (simp add: old_key_def demo_key_def)
  have miss: "time_Hour < demo_now - lastUpdated (stale_validator\<lparr>jwksCache := Map.empty\<rparr>) \<or>
      jwksCache (stale_validator\<lparr>jwksCache := Map.empty\<rparr>) ''k1'' = None"
    by simp
  have body: "http_get demo_world (JwksURL (stale_validator\<lparr>jwksCache := Map.empty\<rparr>)) = Body [demo_jwk]"
    by (simp add: demo_world_def demo_http_get_def)
  have fresh: "fst (getPublicKey demo_world demo_now (stale_validator\<lparr>jwksCache := Map.empty\<rparr>) ''k1'')
          = Inr demo_key"
    by (simp add: getPublicKey_miss [OF miss body] demo_kid demo_decode_key Let_def)
  from getPublicKey_stale_cache_discarded [OF stale, of demo_world "''k1''"]
  have same: "getPublicKey demo_world demo_now stale_validator ''k1'' =
        getPublicKey demo_world demo_now (stale_validator\<lparr>jwksCache := Map.empty\<rparr>) ''k1''"
    and evs: "snd (snd (getPublicKey demo_world demo_now stale_validator ''k1'')) =
        [HttpGet (JwksURL stale_validator)]"
    by blast+
  from same fresh have "fst (getPublicKey demo_world demo_now stale_validator ''k1'') = Inr demo_key"
    by simp
  with stale old differ evs url show ?thesis by simp
qed

text \<open>
  C4. After a call that fetched and decoded the key of a key id at time \<open>t0\<close>, calls
  for that key id at times up to one hour after \<open>t0\<close> return the same key with no
  network call and leave the validator as it is (so the second of two such calls starts
  where the first did), whatever the endpoint would answer; a call later than that
  makes exactly one network call.
\<close>

theorem getPublicKey_cache_hit_no_fetch:
  assumes first: "getPublicKey w0 t0 v kid = (Inr key, v1, [HttpGet url])"
  shows "(t1 - t0 \<le> time_Hour \<and> t2 - t0 \<le> time_Hour \<longrightarrow>
            getPublicKey w1 t1 v1 kid = (Inr key, v1, []) \<and>
            getPublicKey w2 t2 v1 kid = (Inr key, v1, [])) \<and>
         (time_Hour < t3 - t0 \<longrightarrow>
            network_calls (snd (snd (getPublicKey w3 t3 v1 kid))) = 1)"
proof -
  from first have v1: "jwksCache v1 kid = Some key \<and> lastUpdated v1 = t0"
    by (auto simp: getPublicKey_def Let_def split: option.splits http_result.splits sum.splits if_splits)
  have hit: "getPublicKey w' t v1 kid = (Inr key, v1, [])" if "t - t0 \<le> time_Hour" for w' t
    using that v1 by (simp add: getPublicKey_def Let_def)
  have "network_calls (snd (snd (getPublicKey w3 t3 v1 kid))) = 1" if "time_Hour < t3 - t0"
    using that v1
    by (auto simp: getPublicKey_def Let_def network_calls_def split: http_result.splits sum.splits)
  with hit show ?thesis by blast
qed

theorem getPublicKey_cache_hit_no_fetch_witness:
  "getPublicKey demo_world demo_now demo_validator ''k1'' =
     (Inr demo_key, cached_validator, [HttpGet demo_url]) \<and>
   getPublicKey (demo_world\<lparr>http_get := offline_http_get\<rparr>) (demo_now + 1) cached_validator ''k1'' =
     (Inr demo_key, cached_validator, []) \<and>
   getPublicKey (demo_world\<lparr>http_get := offline_http_get\<rparr>) (demo_now + time_Hour)
       cached_validator ''k1'' =
     (Inr demo_key, cached_validator, []) \<and>
   network_calls (snd (snd (getPublicKey demo_world (demo_now + time_Hour + 1)
                              cached_validator ''k1''))) = 1"
  using getPublicKey_cache_hit_no_fetch [OF demo_getPublicKey,
      of "demo_now + 1" "demo_now + time_Hour"
         "demo_world\<lparr>http_get := offline_http_get\<rparr>" "demo_world\<lparr>http_get := offline_http_get\<rparr>"
         "demo_now + time_Hour + 1" demo_world]
    demo_getPublicKey
  by (simp add: time_Hour_def)

section \<open>Properties of the token validator\<close>

subsection \<open>The stages of \<^verbatim>\<open>jwt.Parse\<close> and of \<^verbatim>\<open>ValidateToken\<close>\<close>

lemma getPublicKey_config:
  assumes "getPublicKey w now v kid = (r, v', evs)"
  shows "UserPoolID v' = UserPoolID v \<and> ClientID v' = ClientID v \<and> JwksURL v' = JwksURL v"
  using assms
  by (auto simp: getPublicKey_def Let_def split: option.splits http_result.splits sum.splits if_splits)

lemma keyfunc_config:
  assumes "keyfunc w now v token = (r, v', evs)"
  shows "UserPoolID v' = UserPoolID v \<and> ClientID v' = ClientID v \<and> JwksURL v' = JwksURL v"
  using assms getPublicKey_config [of w now v _ r v' evs]
  by (auto simp: keyfunc_def split: signing_method.splits option.splits json.splits)

lemma ParseUnverified_Inr:
  assumes "ParseUnverified w s = Inr (token, seg)"
  shows "decode_segments w s = Some seg \<and> Claims token = seg_Claims seg \<and>
         Header token = seg_Header seg \<and> claims_of w s = seg_Claims seg"
  using assms
  by (auto simp: ParseUnverified_def claims_of_def split: option.splits json.splits)











text \<open>
  The conversion at work: the value \<open>10\<^sup>1\<^sup>9\<close> is beyond \<^verbatim>\<open>int64\<close> and becomes a time far
  in the past, so as \<^verbatim>\<open>exp\<close> it is expired and as \<^verbatim>\<open>nbf\<close> or \<^verbatim>\<open>iat\<close> it has passed.
\<close>

lemma numeric_date_overflow:
  "\<not> VerifyExpiresAt [(''exp'', JNum 10000000000000000000)] 1700000000 True"
  "VerifyNotBefore [(''nbf'', JNum 10000000000000000000)] 1700000000 False"
  "VerifyIssuedAt [(''iat'', JNum 10000000000000000000)] 1700000000 False"
  by (simp_all add: VerifyExpiresAt_def VerifyNotBefore_def VerifyIssuedAt_def
      newNumericDateFromSeconds_def time_Unix_def int64_of_float_def wrap_int64_def
      unixToInternal_def)

lemma jwt_Parse_unfold:
  assumes "ParseUnverified w s = Inr (token, seg)"
      and "keyfunc w now v token = (Inr key, v', evs)"
  shows "jwt_Parse w now v s =
           (if \<not> signature_ok w (token\<lparr>Signature := seg_Signature seg\<rparr>) seg key
            then (Inl InvalidSignatureError, v', evs @ [SignatureVerify])
            else case MapClaims_Valid (seg_Claims seg) (unix_seconds now) of
                   Some e \<Rightarrow> (Inl e, v', evs @ [SignatureVerify])
                 | None \<Rightarrow> (Inr (token\<lparr>Signature := seg_Signature seg, Valid := True\<rparr>), v',
                             evs @ [SignatureVerify]))"
  using assms ParseUnverified_Inr [OF assms(1)]
  by (simp add: jwt_Parse_def Let_def)

lemma jwt_Parse_keyfunc_error:
  assumes "ParseUnverified w s = Inr (token, seg)"
      and "keyfunc w now v token = (Inl e, v', evs)"
  shows "jwt_Parse w now v s = (Inl e, v', evs)"
  using assms by (simp add: jwt_Parse_def)

lemma jwt_Parse_parse_error:
  assumes "ParseUnverified w s = Inl e"
  shows "jwt_Parse w now v s = (Inl e, v, [])"
  using assms by (simp add: jwt_Parse_def)

lemma ValidateToken_after_Parse:
  assumes "jwt_Parse w now v s = (Inr token, v', evs)" and "Valid token"
  shows "ValidateToken w now v s =
           (if \<not> VerifyExpiresAt (Claims token) (unix_seconds now) True
            then (Inl TokenExpiredError, v', evs)
            else if \<not> VerifyIssuer (Claims token) (expected_issuer w v') True
            then (Inl IssuerMismatchError, v', evs)
            else if claim_mismatch (Claims token) ''client_id'' (ClientID v')
            then (Inl AudienceMismatchError, v', evs)
            else if claim_mismatch (Claims token) ''aud'' (ClientID v')
            then (Inl AudienceMismatchError, v', evs)
            else (Inr token, v', evs))"
  using assms by (simp add: ValidateToken_def)

lemma ValidateToken_Parse_error:
  assumes "jwt_Parse w now v s = (Inl e, v', evs)"
  shows "ValidateToken w now v s = (Inl e, v', evs)"
  using assms by (simp add: ValidateToken_def)

lemma jwt_Parse_Inr:
  assumes "jwt_Parse w now v s = (Inr token, v', evs)"
  shows "Valid token \<and> Claims token = claims_of w s \<and> ClientID v' = ClientID v \<and>
         UserPoolID v' = UserPoolID v"
proof (cases "ParseUnverified w s")
  case (Inl e)
  with assms show ?thesis by (simp add: jwt_Parse_parse_error [OF Inl])
next
  case (Inr p)
  obtain t seg where p: "p = (t, seg)" by (cases p)
  note pu = Inr [unfolded p]
  obtain r v1 evs1 where kf: "keyfunc w now v t = (r, v1, evs1)" by (cases "keyfunc w now v t")
  show ?thesis
  proof (cases r)
    case (Inl e)
    with assms show ?thesis by (simp add: jwt_Parse_keyfunc_error [OF pu kf [unfolded Inl]])
  next
    case (Inr key)
    from assms ParseUnverified_Inr [OF pu] keyfunc_config [OF kf]
    show ?thesis
      by (auto simp: jwt_Parse_unfold [OF pu kf [unfolded Inr]] split: if_splits option.splits)
  qed
qed


lemma GetSigningMethod_rsa_algs:
  "alg \<in> rsa_algs \<Longrightarrow> GetSigningMethod alg = Some (SigningMethodRSA alg)"
  by (simp add: GetSigningMethod_def rsa_algs_def)

lemma GetSigningMethod_RSA_D:
  "GetSigningMethod alg = Some (SigningMethodRSA a) \<Longrightarrow> alg \<in> rsa_algs"
  by (simp add: GetSigningMethod_def rsa_algs_def split: if_splits)

lemma ParseUnverified_not_rsa:
  assumes dec: "decode_segments w s = Some seg"
      and alg: "string_claim (seg_Header seg) ''alg'' \<notin> Some ` rsa_algs"
  shows "ParseUnverified w s = Inl UnsupportedAlgorithmError \<or>
         (\<exists>token. ParseUnverified w s = Inr (token, seg) \<and>
                   (\<forall>a. Method token \<noteq> SigningMethodRSA a))"
proof (cases "string_claim (seg_Header seg) ''alg''")
  case None
  then have "ParseUnverified w s = Inl UnsupportedAlgorithmError"
    using dec by (auto simp: ParseUnverified_def string_claim_def split: option.splits json.splits)
  then show ?thesis ..
next
  case (Some a)
  then have hdr: "map_of (seg_Header seg) ''alg'' = Some (JString a)"
    by (auto simp: string_claim_def split: option.splits json.splits)
  from Some alg have a: "a \<notin> rsa_algs" by auto
  show ?thesis
  proof (cases "GetSigningMethod a")
    case None
    then show ?thesis using dec hdr by (simp add: ParseUnverified_def)
  next
    case (Some m)
    have "m \<noteq> SigningMethodRSA a'" for a'
      using Some a GetSigningMethod_RSA_D [of a a'] by auto
    then show ?thesis using dec hdr Some by (simp add: ParseUnverified_def)
  qed
qed

lemma ValidateToken_not_rsa:
  assumes dec: "decode_segments w s = Some seg"
      and alg: "string_claim (seg_Header seg) ''alg'' \<notin> Some ` rsa_algs"
  shows "ValidateToken w now v s = (Inl UnsupportedAlgorithmError, v, [])"
proof -
  from ParseUnverified_not_rsa [OF dec alg]
  have "jwt_Parse w now v s = (Inl UnsupportedAlgorithmError, v, [])"
  proof
    assume "ParseUnverified w s = Inl UnsupportedAlgorithmError"
    then show ?thesis by (rule jwt_Parse_parse_error)
  next
    assume "\<exists>token. ParseUnverified w s = Inr (token, seg) \<and> (\<forall>a. Method token \<noteq> SigningMethodRSA a)"
    then obtain token where pu: "ParseUnverified w s = Inr (token, seg)"
      and m: "\<forall>a. Method token \<noteq> SigningMethodRSA a" by blast
    have "keyfunc w now v token = (Inl UnsupportedAlgorithmError, v, [])"
      using m by (cases "Method token") (simp_all add: keyfunc_def)
    then show ?thesis by (rule jwt_Parse_keyfunc_error [OF pu])
  qed
  then show ?thesis by (rule ValidateToken_Parse_error)
qed

subsection \<open>The concrete deployment, evaluated\<close>

lemma demo_ParseUnverified:
  assumes "demo_decode s = Some (demo_segments demo_header cl)"
  shows "ParseUnverified demo_world s =
           Inr (\<lparr>Raw = s, Method = SigningMethodRSA ''RS256'', Header = demo_header,
                  Claims = cl, Signature = [], Valid = False\<rparr>, demo_segments demo_header cl)"
  using assms
  by (simp add: ParseUnverified_def demo_world_def demo_segments_def demo_header_def
      GetSigningMethod_def)

lemma demo_keyfunc:
  "keyfunc demo_world demo_now demo_validator
      \<lparr>Raw = s, Method = SigningMethodRSA ''RS256'', Header = demo_header,
        Claims = cl, Signature = [], Valid = False\<rparr> =
     (Inr demo_key, cached_validator, [HttpGet demo_url])"
  by (simp add: keyfunc_def demo_header_def demo_getPublicKey)

lemma demo_signature_ok:
  "signature_ok demo_world
     \<lparr>Raw = s, Method = SigningMethodRSA ''RS256'', Header = demo_header,
       Claims = cl, Signature = sg, Valid = b\<rparr> (demo_segments demo_header cl) demo_key"
  by (simp add: signature_ok_def demo_world_def demo_verify_def demo_segments_def)


lemma demo_decode_segments: "decode_segments demo_world s = demo_decode s"
  by (simp add: demo_world_def)


lemma demo_unix: "unix_seconds demo_now = 1700000000"
  by (simp add: unix_seconds_def demo_now_def)

lemma demo_config:
  "expected_issuer demo_world cached_validator = ''https://cognito-idp.eu-west-1.amazonaws.com/pool1''"
  "ClientID cached_validator = ''client1''"
  "expected_issuer demo_world demo_validator = ''https://cognito-idp.eu-west-1.amazonaws.com/pool1''"
  "ClientID demo_validator = ''client1''"
  by (simp_all add: expected_issuer_def demo_world_def cached_validator_def demo_validator_def)

lemma demo_jwt_Parse:
  assumes "demo_decode s = Some (demo_segments demo_header cl)"
  shows "jwt_Parse demo_world demo_now demo_validator s =
           (case MapClaims_Valid cl 1700000000 of
              Some e \<Rightarrow> (Inl e, cached_validator, [HttpGet demo_url, SignatureVerify])
            | None \<Rightarrow>
                (Inr \<lparr>Raw = s, Method = SigningMethodRSA ''RS256'', Header = demo_header,
                      Claims = cl, Signature = ''sig'', Valid = True\<rparr>,
                 cached_validator, [HttpGet demo_url, SignatureVerify]))"
  by (simp add: jwt_Parse_unfold [OF demo_ParseUnverified [OF assms] demo_keyfunc]
      demo_signature_ok demo_unix)
     (simp add: demo_segments_def split: option.splits)


lemma demo_ValidateToken:
  assumes "demo_decode s = Some (demo_segments demo_header cl)"
      and "MapClaims_Valid cl 1700000000 = None"
  shows "ValidateToken demo_world demo_now demo_validator s =
           (if \<not> VerifyExpiresAt cl 1700000000 True
            then (Inl TokenExpiredError, cached_validator, [HttpGet demo_url, SignatureVerify])
            else if \<not> VerifyIssuer cl ''https://cognito-idp.eu-west-1.amazonaws.com/pool1'' True
            then (Inl IssuerMismatchError, cached_validator, [HttpGet demo_url, SignatureVerify])
            else if claim_mismatch cl ''client_id'' ''client1''
            then (Inl AudienceMismatchError, cached_validator, [HttpGet demo_url, SignatureVerify])
            else if claim_mismatch cl ''aud'' ''client1''
            then (Inl AudienceMismatchError, cached_validator, [HttpGet demo_url, SignatureVerify])
            else (Inr \<lparr>Raw = s, Method = SigningMethodRSA ''RS256'', Header = demo_header,
                       Claims = cl, Signature = ''sig'', Valid = True\<rparr>,
                  cached_validator, [HttpGet demo_url, SignatureVerify]))"
proof -
  have jp: "jwt_Parse demo_world demo_now demo_validator s =
      (Inr \<lparr>Raw = s, Method = SigningMethodRSA ''RS256'', Header = demo_header,
            Claims = cl, Signature = ''sig'', Valid = True\<rparr>,
       cached_validator, [HttpGet demo_url, SignatureVerify])"
    by (simp add: demo_jwt_Parse [OF assms(1)] assms(2))
  show ?thesis
    by (simp add: ValidateToken_after_Parse [OF jp] demo_unix demo_config)
qed





lemma tok_noaud:
  "demo_decode ''noaud'' =
     Some (demo_segments demo_header
             [(''sub'', JString ''user-1''), (''iss'', demo_issuer), (''exp'', JNum 1700003600)])"
  by (simp add: demo_decode_def)

lemma tok_otheraud:
  "demo_decode ''otheraud'' =
     Some (demo_segments demo_header
             [(''iss'', demo_issuer), (''aud'', JString ''client2''), (''exp'', JNum 1700003600)])"
  by (simp add: demo_decode_def)

lemma tok_hs256:
  "demo_decode ''hs256'' =
     Some (demo_segments [(''alg'', JString ''HS256''), (''kid'', JString ''k1'')] demo_claims)"
  by (simp add: demo_decode_def)

lemma tok_nokid:
  "demo_decode ''nokid'' = Some (demo_segments [(''alg'', JString ''RS256'')] demo_claims)"
  by (simp add: demo_decode_def)

lemma tok_hs256_nokid:
  "demo_decode ''hs256-nokid'' = Some (demo_segments [(''alg'', JString ''HS256'')] demo_claims)"
  by (simp add: demo_decode_def)





lemma tok_nosub:
  "demo_decode ''nosub'' =
     Some (demo_segments demo_header
             [(''iss'', demo_issuer), (''client_id'', JString ''client1''),
              (''exp'', JNum 1700003600)])"
  by (simp add: demo_decode_def)

lemmas claim_checks =
  MapClaims_Valid_def VerifyExpiresAt_def VerifyIssuedAt_def VerifyNotBefore_def
  VerifyIssuer_def claim_mismatch_def demo_claims_def demo_issuer_def
  newNumericDateFromSeconds_def time_Unix_def int64_of_float_def wrap_int64_def
  unixToInternal_def

subsection \<open>When claims are produced\<close>




subsection \<open>The audience/client check\<close>

text \<open>
  C6. For a token that \<^verbatim>\<open>jwt.Parse\<close> accepted and that passed the expiry and issuer
  checks: a \<^verbatim>\<open>client_id\<close> claim that is present and differs from the configured client
  id fails with \<open>AudienceMismatchError\<close>; so does an \<^verbatim>\<open>aud\<close> claim that is present and
  differs from it; a token with neither claim passes and is returned, as is every token
  whose present claims equal the client id.
\<close>

theorem ValidateToken_audience_check:
  assumes parse: "jwt_Parse w now v s = (Inr token, v', evs)"
      and exp: "VerifyExpiresAt (Claims token) (unix_seconds now) True"
      and iss: "VerifyIssuer (Claims token) (expected_issuer w v') True"
  shows "(\<forall>c. map_of (Claims token) ''client_id'' = Some c \<and> c \<noteq> JString (ClientID v) \<longrightarrow>
            fst (ValidateToken w now v s) = Inl AudienceMismatchError) \<and>
         (\<forall>a. map_of (Claims token) ''aud'' = Some a \<and> a \<noteq> JString (ClientID v) \<longrightarrow>
            fst (ValidateToken w now v s) = Inl AudienceMismatchError) \<and>
         (map_of (Claims token) ''client_id'' = None \<and> map_of (Claims token) ''aud'' = None \<longrightarrow>
            fst (ValidateToken w now v s) = Inr token) \<and>
         (map_of (Claims token) ''client_id'' \<in> {None, Some (JString (ClientID v))} \<and>
          map_of (Claims token) ''aud'' \<in> {None, Some (JString (ClientID v))} \<longrightarrow>
            fst (ValidateToken w now v s) = Inr token)"
  using jwt_Parse_Inr [OF parse] exp iss
  by (auto simp: ValidateToken_after_Parse [OF parse] claim_mismatch_def split: option.splits)

theorem ValidateToken_audience_check_witness:
  "map_of [(''sub'', JString ''user-1''), (''iss'', demo_issuer), (''exp'', JNum 1700003600)]
     ''client_id'' = None \<and>
   map_of [(''sub'', JString ''user-1''), (''iss'', demo_issuer), (''exp'', JNum 1700003600)]
     ''aud'' = None \<and>
   fst (ValidateToken demo_world demo_now demo_validator ''noaud'') =
     Inr \<lparr>Raw = ''noaud'', Method = SigningMethodRSA ''RS256'', Header = demo_header,
          Claims = [(''sub'', JString ''user-1''), (''iss'', demo_issuer), (''exp'', JNum 1700003600)],
          Signature = ''sig'', Valid = True\<rparr> \<and>
   fst (ValidateToken demo_world demo_now demo_validator ''otheraud'') = Inl AudienceMismatchError"
proof -
  let ?c1 = "[(''sub'', JString ''user-1''), (''iss'', demo_issuer), (''exp'', JNum 1700003600)]"
  let ?c2 = "[(''iss'', demo_issuer), (''aud'', JString ''client2''), (''exp'', JNum 1700003600)]"
  let ?t1 = "\<lparr>Raw = ''noaud'', Method = SigningMethodRSA ''RS256'', Header = demo_header,
      Claims = ?c1, Signature = ''sig'', Valid = True\<rparr>"
  let ?t2 = "\<lparr>Raw = ''otheraud'', Method = SigningMethodRSA ''RS256'', Header = demo_header,
      Claims = ?c2, Signature = ''sig'', Valid = True\<rparr>"
  have v1: "MapClaims_Valid ?c1 1700000000 = None" by (simp add: claim_checks)
  have v2: "MapClaims_Valid ?c2 1700000000 = None" by (simp add: claim_checks)
  have jp1: "jwt_Parse demo_world demo_now demo_validator ''noaud'' =
      (Inr ?t1, cached_validator, [HttpGet demo_url, SignatureVerify])"
    by (simp add: demo_jwt_Parse [OF tok_noaud] v1)
  have jp2: "jwt_Parse demo_world demo_now demo_validator ''otheraud'' =
      (Inr ?t2, cached_validator, [HttpGet demo_url, SignatureVerify])"
    by (simp add: demo_jwt_Parse [OF tok_otheraud] v2)
  have e1: "VerifyExpiresAt (Claims ?t1) (unix_seconds demo_now) True"
    by (simp add: demo_unix claim_checks)
  have i1: "VerifyIssuer (Claims ?t1) (expected_issuer demo_world cached_validator) True"
    by (simp add: demo_config claim_checks)
  have e2: "VerifyExpiresAt (Claims ?t2) (unix_seconds demo_now) True"
    by (simp add: demo_unix claim_checks)
  have i2: "VerifyIssuer (Claims ?t2) (expected_issuer demo_world cached_validator) True"
    by (simp add: demo_config claim_checks)
  from ValidateToken_audience_check [OF jp1 e1 i1]
  have r1: "fst (ValidateToken demo_world demo_now demo_validator ''noaud'') = Inr ?t1"
    by simp
  from ValidateToken_audience_check [OF jp2 e2 i2]
  have r2: "fst (ValidateToken demo_world demo_now demo_validator ''otheraud'') =
      Inl AudienceMismatchError"
    by (simp add: demo_config)
  from r1 r2 show ?thesis by simp
qed

subsection \<open>Expiry\<close>





subsection \<open>Algorithm and key id\<close>

text \<open>
  C8. For every token that decodes and whose header does not declare one of the RSA
  signature algorithms RS256, RS384, RS512 (another algorithm, an unknown one, or none),
  \<^verbatim>\<open>ValidateToken\<close> fails with \<open>UnsupportedAlgorithmError\<close>; no signature verification
  takes place, nor any other effect, and the validator is left as it was.
\<close>

theorem ValidateToken_unsupported_algorithm:
  assumes dec: "decode_segments w s = Some seg"
      and alg: "string_claim (seg_Header seg) ''alg'' \<notin> Some ` rsa_algs"
  shows "fst (ValidateToken w now v s) = Inl UnsupportedAlgorithmError \<and>
         SignatureVerify \<notin> set (snd (snd (ValidateToken w now v s))) \<and>
         snd (ValidateToken w now v s) = (v, [])"
  by (simp add: ValidateToken_not_rsa [OF dec alg])

theorem ValidateToken_unsupported_algorithm_witness:
  "decode_segments demo_world ''hs256'' =
     Some (demo_segments [(''alg'', JString ''HS256''), (''kid'', JString ''k1'')] demo_claims) \<and>
   fst (ValidateToken demo_world demo_now demo_validator ''hs256'') = Inl UnsupportedAlgorithmError \<and>
   snd (ValidateToken demo_world demo_now demo_validator ''hs256'') = (demo_validator, [])"
proof -
  let ?seg = "demo_segments [(''alg'', JString ''HS256''), (''kid'', JString ''k1'')] demo_claims"
  have dec: "decode_segments demo_world ''hs256'' = Some ?seg"
    by (simp add: demo_decode_segments tok_hs256)
  have alg: "string_claim (seg_Header ?seg) ''alg'' \<notin> Some ` rsa_algs"
    by (simp add: string_claim_def demo_segments_def rsa_algs_def)
  from ValidateToken_unsupported_algorithm [OF dec alg, of demo_now demo_validator] dec
  show ?thesis by simp
qed

text \<open>
  C9. For every token that decodes and whose header carries no key id of string type,
  no network call is made during the validation. When the token has passed the step
  before, the algorithm check (its header declares RS256, RS384 or RS512),
  \<^verbatim>\<open>ValidateToken\<close> fails with \<open>MissingKeyIdError\<close>, with no effect at all and the
  validator left as it was. A token without key id that fails the algorithm check fails
  there, with \<open>UnsupportedAlgorithmError\<close>.
\<close>

theorem ValidateToken_missing_kid:
  assumes dec: "decode_segments w s = Some seg"
      and kid: "string_claim (seg_Header seg) ''kid'' = None"
  shows "network_calls (snd (snd (ValidateToken w now v s))) = 0 \<and>
         (string_claim (seg_Header seg) ''alg'' \<in> Some ` rsa_algs \<longrightarrow>
            ValidateToken w now v s = (Inl MissingKeyIdError, v, [])) \<and>
         (string_claim (seg_Header seg) ''alg'' \<notin> Some ` rsa_algs \<longrightarrow>
            ValidateToken w now v s = (Inl UnsupportedAlgorithmError, v, []))"
proof (cases "string_claim (seg_Header seg) ''alg'' \<in> Some ` rsa_algs")
  case False
  from ValidateToken_not_rsa [OF dec False, of now v] False
  show ?thesis by (simp add: network_calls_def)
next
  case True
  then obtain alg where alg: "map_of (seg_Header seg) ''alg'' = Some (JString alg)" "alg \<in> rsa_algs"
    by (auto simp: string_claim_def split: option.splits json.splits)
  let ?t = "\<lparr>Raw = s, Method = SigningMethodRSA alg, Header = seg_Header seg,
              Claims = seg_Claims seg, Signature = [], Valid = False\<rparr>"
  have pu: "ParseUnverified w s = Inr (?t, seg)"
    using dec alg by (simp add: ParseUnverified_def GetSigningMethod_rsa_algs)
  have "keyfunc w now v ?t = (Inl MissingKeyIdError, v, [])"
    using kid by (auto simp: keyfunc_def string_claim_def split: option.splits json.splits)
  then have "jwt_Parse w now v s = (Inl MissingKeyIdError, v, [])"
    by (rule jwt_Parse_keyfunc_error [OF pu])
  then have "ValidateToken w now v s = (Inl MissingKeyIdError, v, [])"
    by (rule ValidateToken_Parse_error)
  with True show ?thesis by (simp add: network_calls_def)
qed

theorem ValidateToken_missing_kid_witness:
  "decode_segments demo_world ''nokid'' =
     Some (demo_segments [(''alg'', JString ''RS256'')] demo_claims) \<and>
   map_of [(''alg'', JString ''RS256'')] ''kid'' = None \<and>
   ValidateToken demo_world demo_now demo_validator ''nokid'' =
     (Inl MissingKeyIdError, demo_validator, []) \<and>
   network_calls (snd (snd (ValidateToken demo_world demo_now demo_validator ''nokid''))) = 0 \<and>
   decode_segments demo_world ''hs256-nokid'' =
     Some (demo_segments [(''alg'', JString ''HS256'')] demo_claims) \<and>
   ValidateToken demo_world demo_now demo_validator ''hs256-nokid'' =
     (Inl UnsupportedAlgorithmError, demo_validator, [])"
proof -
  let ?seg = "demo_segments [(''alg'', JString ''RS256'')] demo_claims"
  let ?seg' = "demo_segments [(''alg'', JString ''HS256'')] demo_claims"
  have dec: "decode_segments demo_world ''nokid'' = Some ?seg"
    by (simp add: demo_decode_segments tok_nokid)
  have kid: "string_claim (seg_Header ?seg) ''kid'' = None"
    by (simp add: string_claim_def demo_segments_def)
  have alg: "string_claim (seg_Header ?seg) ''alg'' \<in> Some ` rsa_algs"
    by (simp add: string_claim_def demo_segments_def rsa_algs_def)
  have dec': "decode_segments demo_world ''hs256-nokid'' = Some ?seg'"
    by (simp add: demo_decode_segments tok_hs256_nokid)
  have kid': "string_claim (seg_Header ?seg') ''kid'' = None"
    by (simp add: string_claim_def demo_segments_def)
  have alg': "string_claim (seg_Header ?seg') ''alg'' \<notin> Some ` rsa_algs"
    by (simp add: string_claim_def demo_segments_def rsa_algs_def)
  from ValidateToken_missing_kid [OF dec kid, of demo_now demo_validator] alg dec
  have r: "ValidateToken demo_world demo_now demo_validator ''nokid'' =
      (Inl MissingKeyIdError, demo_validator, [])"
    by simp
  from ValidateToken_missing_kid [OF dec' kid', of demo_now demo_validator] alg'
  have r': "ValidateToken demo_world demo_now demo_validator ''hs256-nokid'' =
      (Inl UnsupportedAlgorithmError, demo_validator, [])"
    by simp
  from dec dec' r r' show ?thesis by (simp add: network_calls_def)
qed

section \<open>Properties of the Lambda handler\<close>

text \<open>
  C10. When the token of a request validates and its claims hold no \<^verbatim>\<open>sub\<close> of string
  type, \<^verbatim>\<open>handleRequest\<close> returns no error but a response with the empty string as
  principal, the empty string as context \<^verbatim>\<open>sub\<close>, and a policy with the one statement
  that allows \<^verbatim>\<open>execute-api:Invoke\<close> on the method ARN of the request.
\<close>

theorem handleRequest_missing_sub:
  assumes ok: "fst (ValidateTokenForAPIGateway w now
                     (TrimPrefix (AuthorizationToken event) ''Bearer '')
                     (cognitoUserPoolID w) (cognitoClientID w)) = Inr claims"
      and sub: "string_claim claims ''sub'' = None"
  shows "\<exists>r. fst (handleRequest w now event) = Inr r \<and>
             PrincipalID r = [] \<and>
             Context r ''sub'' = Some (JString []) \<and>
             PolicyDocument r =
               \<lparr>Version = ''2012-10-17'',
                Statement = [\<lparr>Action = [''execute-api:Invoke''], Effect = ''Allow'',
                              Resource = [MethodArn event]\<rparr>]\<rparr>"
proof -
  obtain evs where v: "ValidateTokenForAPIGateway w now
      (TrimPrefix (AuthorizationToken event) ''Bearer '') (cognitoUserPoolID w) (cognitoClientID w)
        = (Inr claims, evs)"
    using ok by (cases "ValidateTokenForAPIGateway w now
      (TrimPrefix (AuthorizationToken event) ''Bearer '') (cognitoUserPoolID w) (cognitoClientID w)") simp
  show ?thesis
    by (simp add: handleRequest_def v sub Let_def generatePolicy_def split: option.splits)
qed

lemma demo_env:
  "cognitoRegion demo_world = ''eu-west-1''"
  "cognitoUserPoolID demo_world = ''pool1''"
  "cognitoClientID demo_world = ''client1''"
  by (simp_all add: demo_world_def)

lemma demo_NewTokenValidator:
  "NewTokenValidator ''eu-west-1'' ''pool1'' ''client1'' = Inr demo_validator"
  by (simp add: NewTokenValidator_def demo_validator_def demo_url_def)

theorem handleRequest_missing_sub_witness:
  "fst (ValidateTokenForAPIGateway demo_world demo_now
          (TrimPrefix (AuthorizationToken demo_event) ''Bearer '')
          (cognitoUserPoolID demo_world) (cognitoClientID demo_world)) =
     Inr [(''iss'', demo_issuer), (''client_id'', JString ''client1''), (''exp'', JNum 1700003600)] \<and>
   string_claim [(''iss'', demo_issuer), (''client_id'', JString ''client1''),
                 (''exp'', JNum 1700003600)] ''sub'' = None \<and>
   (\<exists>r. fst (handleRequest demo_world demo_now demo_event) = Inr r \<and>
        PrincipalID r = [] \<and>
        Context r ''sub'' = Some (JString []) \<and>
        PolicyDocument r =
          \<lparr>Version = ''2012-10-17'',
           Statement = [\<lparr>Action = [''execute-api:Invoke''], Effect = ''Allow'',
                         Resource = [''arn:aws:execute-api:eu-west-1:123456789012:api/prod/GET/items'']\<rparr>]\<rparr>)"
proof -
  let ?c = "[(''iss'', demo_issuer), (''client_id'', JString ''client1''), (''exp'', JNum 1700003600)]"
  have valid: "MapClaims_Valid ?c 1700000000 = None" by (simp add: claim_checks)
  have vt: "ValidateToken demo_world demo_now demo_validator ''nosub'' =
      (Inr \<lparr>Raw = ''nosub'', Method = SigningMethodRSA ''RS256'', Header = demo_header,
            Claims = ?c, Signature = ''sig'', Valid = True\<rparr>,
       cached_validator, [HttpGet demo_url, SignatureVerify])"
    by (simp add: demo_ValidateToken [OF tok_nosub valid]) (simp add: claim_checks)
  have trim: "TrimPrefix (AuthorizationToken demo_event) ''Bearer '' = ''nosub''"
    by (simp add: TrimPrefix_def demo_event_def)
  have ok: "fst (ValidateTokenForAPIGateway demo_world demo_now
          (TrimPrefix (AuthorizationToken demo_event) ''Bearer '')
          (cognitoUserPoolID demo_world) (cognitoClientID demo_world)) = Inr ?c"
    by (simp add: ValidateTokenForAPIGateway_def trim demo_env demo_NewTokenValidator vt)
  have sub: "string_claim ?c ''sub'' = None"
    by (simp add: string_claim_def)
  from handleRequest_missing_sub [OF ok sub] ok sub
  show ?thesis by (simp add: demo_event_def)
qed

end
